theory Spec2Isabelle
  imports Complex_Main
begin

section \<open>Numeric values\<close>

text \<open>
  The module computes with numpy arrays of double-precision floats. The model idealises
  a finite float as an exact real number, so every "approximately equal" of the
  documentation becomes an equality. A division of zero by zero, which numpy answers
  with NaN (and a warning, not an exception), is kept as a value of its own: \<open>NaN\<close>
  is absorbing for every operation below, as it is in numpy.

  A non-zero number divided by zero is plus or minus infinity in numpy. No division of
  the module can reach that case in exact arithmetic: every divisor is the Euclidean
  norm of the very vector it divides, so a zero divisor always meets a zero numerator.
  \<open>fdiv\<close> answers \<open>NaN\<close> for every zero divisor.
\<close>

datatype fl = Fin real | NaN

fun fadd :: "fl \<Rightarrow> fl \<Rightarrow> fl" where
  "fadd (Fin x) (Fin y) = Fin (x + y)"
| "fadd _ _ = NaN"

fun fsub :: "fl \<Rightarrow> fl \<Rightarrow> fl" where
  "fsub (Fin x) (Fin y) = Fin (x - y)"
| "fsub _ _ = NaN"

fun fmul :: "fl \<Rightarrow> fl \<Rightarrow> fl" where
  "fmul (Fin x) (Fin y) = Fin (x * y)"
| "fmul _ _ = NaN"

fun fdiv :: "fl \<Rightarrow> fl \<Rightarrow> fl" where
  "fdiv (Fin x) (Fin y) = (if y = 0 then NaN else Fin (x / y))"
| "fdiv _ _ = NaN"

fun fneg :: "fl \<Rightarrow> fl" where
  "fneg (Fin x) = Fin (- x)"
| "fneg NaN = NaN"

fun fsin :: "fl \<Rightarrow> fl" where
  "fsin (Fin x) = Fin (sin x)"
| "fsin NaN = NaN"

fun fcos :: "fl \<Rightarrow> fl" where
  "fcos (Fin x) = Fin (cos x)"
| "fcos NaN = NaN"

text \<open>\<open>np.sqrt\<close> of a negative number is NaN.\<close>

fun fsqrt :: "fl \<Rightarrow> fl" where
  "fsqrt (Fin x) = (if x < 0 then NaN else Fin (sqrt x))"
| "fsqrt NaN = NaN"

section \<open>Arrays\<close>

text \<open>
  An array of shape \<open>(npts, 2)\<close> is a list of pairs, an array of shape
  \<open>(npts, 2, 2)\<close> a list of matrices, each matrix the pair of its rows. Arrays of
  other shapes are excluded by the types, apart from the cases the module itself tells
  apart: a scalar angle against an array of angles (\<open>np.atleast_1d\<close>), a single
  vector against a batch (\<open>np.atleast_2d\<close>), one \<open>(2, 2)\<close> matrix against a
  batch of matrices (the test on \<open>np.shape\<close> in \<open>rotate_vector_collection\<close>), and
  the arrays of three columns that \<open>rotation2d\<close> reshapes its reference basis to.
\<close>

type_synonym vec2 = "fl \<times> fl"

type_synonym mat2 = "(fl \<times> fl) \<times> (fl \<times> fl)"

datatype error = TypeError | ValueError

text \<open>\<open>np.zeros((npts, 2, 2))\<close>.\<close>

definition zeros :: "nat \<Rightarrow> mat2 list" where
  "zeros npts = replicate npts ((Fin 0, Fin 0), (Fin 0, Fin 0))"

text \<open>Writing one entry of a matrix: the four index pairs the module uses.\<close>

fun set00 :: "fl \<Rightarrow> mat2 \<Rightarrow> mat2" where
  "set00 x ((a, b), (c, d)) = ((x, b), (c, d))"

fun set01 :: "fl \<Rightarrow> mat2 \<Rightarrow> mat2" where
  "set01 x ((a, b), (c, d)) = ((a, x), (c, d))"

fun set10 :: "fl \<Rightarrow> mat2 \<Rightarrow> mat2" where
  "set10 x ((a, b), (c, d)) = ((a, b), (x, d))"

fun set11 :: "fl \<Rightarrow> mat2 \<Rightarrow> mat2" where
  "set11 x ((a, b), (c, d)) = ((a, b), (c, x))"

text \<open>
  The slice assignment \<open>R[:, j, k] = xs\<close>: entry \<open>(j, k)\<close> of the i-th matrix
  becomes the i-th element of \<open>xs\<close>. In both functions that assign to a slice the
  right-hand side has the length of \<open>R\<close> by construction.
\<close>

definition assign :: "(fl \<Rightarrow> mat2 \<Rightarrow> mat2) \<Rightarrow> fl list \<Rightarrow> mat2 list \<Rightarrow> mat2 list" where
  "assign put xs R = map2 put xs R"

section \<open>Rotation matrices from angles\<close>

datatype angles_arg = Scalar fl | Array "fl list"

text \<open>\<open>np.atleast_1d\<close>: a scalar becomes an array of length one.\<close>

fun atleast_1d :: "angles_arg \<Rightarrow> fl list" where
  "atleast_1d (Scalar x) = [x]"
| "atleast_1d (Array xs) = xs"

definition rotation_matrices_from_angles :: "angles_arg \<Rightarrow> mat2 list" where
  "rotation_matrices_from_angles angles0 =
     (let angles = atleast_1d angles0;
          npts = length angles;
          sina = map fsin angles;
          cosa = map fcos angles;
          R = zeros npts;
          R = assign set00 cosa R;
          R = assign set11 cosa R;
          R = assign set01 sina R;
          R = assign set10 (map fneg sina) R
      in R)"

text \<open>The matrix the documentation gives for one angle, and operations to state
  orthogonality with.\<close>

definition rot :: "real \<Rightarrow> mat2" where
  "rot t = ((Fin (cos t), Fin (sin t)), (Fin (- sin t), Fin (cos t)))"

definition identity2 :: mat2 where
  "identity2 = ((Fin 1, Fin 0), (Fin 0, Fin 1))"

fun mat_transpose :: "mat2 \<Rightarrow> mat2" where
  "mat_transpose ((a, b), (c, d)) = ((a, c), (b, d))"

fun mat_mul :: "mat2 \<Rightarrow> mat2 \<Rightarrow> mat2" where
  "mat_mul ((a, b), (c, d)) ((p, q), (r, s)) =
     ((fadd (fmul a p) (fmul b r), fadd (fmul a q) (fmul b s)),
      (fadd (fmul c p) (fmul d r), fadd (fmul c q) (fmul d s)))"

fun det :: "mat2 \<Rightarrow> fl" where
  "det ((a, b), (c, d)) = fsub (fmul a d) (fmul b c)"

section \<open>Applying rotation matrices\<close>

text \<open>
  The first argument of \<open>rotate_vector_collection\<close> is one matrix, of shape
  \<open>(2, 2)\<close>, or a batch of them, of shape \<open>(npts, 2, 2)\<close>. The test
  \<open>np.shape(rotation_matrices) == (2, 2)\<close> of the source holds for the first and
  fails for the second, whatever \<open>npts\<close> is, so the model branches on the two cases.
\<close>

datatype rotarg = Single mat2 | Batch "mat2 list"

fun np_shape :: "rotarg \<Rightarrow> nat list" where
  "np_shape (Single M) = [2, 2]"
| "np_shape (Batch Ms) = [length Ms, 2, 2]"

text \<open>\<open>vectors.T\<close>: an \<open>(npts, 2)\<close> array as its two columns.\<close>

definition transpose_N2 :: "vec2 list \<Rightarrow> fl list \<times> fl list" where
  "transpose_N2 vectors = (map fst vectors, map snd vectors)"

text \<open>\<open>np.dot\<close> of a \<open>(2, 2)\<close> matrix with a \<open>(2, npts)\<close> array.\<close>

fun dot_22_2N :: "mat2 \<Rightarrow> fl list \<times> fl list \<Rightarrow> fl list \<times> fl list" where
  "dot_22_2N ((a, b), (c, d)) (xs, ys) =
     (map2 (\<lambda>x y. fadd (fmul a x) (fmul b y)) xs ys,
      map2 (\<lambda>x y. fadd (fmul c x) (fmul d y)) xs ys)"

text \<open>The transpose of a \<open>(2, npts)\<close> array.\<close>

fun transpose_2N :: "fl list \<times> fl list \<Rightarrow> vec2 list" where
  "transpose_2N (xs, ys) = zip xs ys"

text \<open>One item of the contraction \<open>ijk,ik->ij\<close>: the sum over \<open>k\<close> of
  \<open>M[j, k] * v[k]\<close>.\<close>

fun mat_vec :: "mat2 \<Rightarrow> vec2 \<Rightarrow> vec2" where
  "mat_vec ((a, b), (c, d)) (x, y) =
     (fadd (fmul a x) (fmul b y), fadd (fmul c x) (fmul d y))"

text \<open>
  \<open>np.einsum('ijk,ik->ij', rotation_matrices, vectors, optimize=optimize)\<close>. The
  label \<open>i\<close> names the first axis of both operands. numpy's einsum broadcasts an axis
  of length one against the other operand's axis, as its elementwise operations do, and
  raises ValueError when the two lengths differ and neither is one. The \<open>optimize\<close>
  keyword chooses the contraction path only.
\<close>

definition einsum_ijk_ik :: "mat2 list \<Rightarrow> vec2 list \<Rightarrow> bool \<Rightarrow> error + vec2 list" where
  "einsum_ijk_ik Ms vs optimize =
     (if length Ms = length vs then Inr (map2 mat_vec Ms vs)
      else if length Ms = 1 then Inr (map (mat_vec (hd Ms)) vs)
      else if length vs = 1 then Inr (map (\<lambda>M. mat_vec M (hd vs)) Ms)
      else Inl ValueError)"

text \<open>
  The handler of the source catches TypeError only (an einsum too old to know the
  \<open>optimize\<close> keyword) and then calls einsum without the keyword; every other
  exception leaves the function.
\<close>

definition rotate_vector_collection :: "rotarg \<Rightarrow> vec2 list \<Rightarrow> bool \<Rightarrow> error + vec2 list" where
  "rotate_vector_collection rotation_matrices vectors optimize =
     (case rotation_matrices of
        Single M \<Rightarrow> Inr (transpose_2N (dot_22_2N M (transpose_N2 vectors)))
      | Batch Ms \<Rightarrow>
          (case einsum_ijk_ik Ms vectors optimize of
             Inl e \<Rightarrow> (if e = TypeError then einsum_ijk_ik Ms vectors False else Inl e)
           | Inr r \<Rightarrow> Inr r))"

section \<open>The helpers of the vector-calculations module\<close>

text \<open>
  The module imports \<open>normalized_vectors\<close>, \<open>elementwise_norm\<close>,
  \<open>elementwise_dot\<close>, \<open>angles_between_list_of_vectors\<close> and
  \<open>NumpyRNGContext\<close> from its sibling module \<open>vector_calculations\<close>, which is not
  among the files verified here. Each is modelled from the description the
  specification gives of it.
\<close>

text \<open>Modelled from the spec: the L2 norm of one vector, the item of the absent
  \<open>elementwise_norm\<close>.\<close>

fun norm2 :: "vec2 \<Rightarrow> fl" where
  "norm2 (x, y) = fsqrt (fadd (fmul x x) (fmul y y))"

text \<open>Modelled from the spec: the absent \<open>elementwise_norm\<close>, the "elementwise norm
  (batch)".\<close>

definition elementwise_norm :: "vec2 list \<Rightarrow> fl list" where
  "elementwise_norm vs = map norm2 vs"

text \<open>Modelled from the spec: the dot product of two rows of one width, the item of the
  absent \<open>elementwise_dot\<close>.\<close>

fun row_dot :: "fl list \<Rightarrow> fl list \<Rightarrow> fl" where
  "row_dot (x # xs) (y # ys) = fadd (fmul x y) (row_dot xs ys)"
| "row_dot _ _ = Fin 0"

text \<open>Modelled from the spec: the absent \<open>elementwise_dot\<close>, the "elementwise dot
  product (batch)", on two arrays of one shape, given by their rows: the product of the
  operands needs no broadcasting there and cannot fail.\<close>

definition elementwise_dot :: "fl list list \<Rightarrow> fl list list \<Rightarrow> fl list" where
  "elementwise_dot xs ys = map2 row_dot xs ys"

text \<open>An \<open>(npts, 2)\<close> array read as its rows.\<close>

definition as_rows :: "vec2 list \<Rightarrow> fl list list" where
  "as_rows vs = map (\<lambda>(x, y). [x, y]) vs"

text \<open>
  An array of two axes of any width, as \<open>rotation2d\<close> builds them: its shape
  \<open>(rows, columns)\<close> and its rows. The shape is kept beside the rows because numpy
  decides from the shapes whether two operands can be combined, also when an array has
  no row at all.
\<close>

type_synonym array2 = "(nat \<times> nat) \<times> fl list list"

definition as_array2 :: "vec2 list \<Rightarrow> array2" where
  "as_array2 vs = ((length vs, 2), as_rows vs)"

text \<open>
  numpy's broadcasting of one axis: two lengths go together when they are equal or one
  of them is one, and the axis of length one is repeated to the other length.
\<close>

definition broadcastable :: "nat \<Rightarrow> nat \<Rightarrow> bool" where
  "broadcastable m n = (m = n \<or> m = 1 \<or> n = 1)"

definition broadcast_length :: "nat \<Rightarrow> nat \<Rightarrow> nat" where
  "broadcast_length m n = (if m = 1 then n else m)"

definition stretch :: "nat \<Rightarrow> 'a list \<Rightarrow> 'a list" where
  "stretch n xs = (if length xs = n then xs else replicate n (hd xs))"

text \<open>Modelled from the spec: the absent \<open>elementwise_dot\<close>, the "elementwise dot
  product (batch)", on two arrays of any shapes. It multiplies its operands element by
  element before it sums along the rows, and numpy raises ValueError for the product
  unless the two shapes broadcast, axis by axis. Operands of widths 3 and 2 never do,
  whatever the number of rows, zero included.\<close>

definition elementwise_dot_shaped :: "array2 \<Rightarrow> array2 \<Rightarrow> error + fl list" where
  "elementwise_dot_shaped x y =
     (let (n, w) = fst x; (n', w') = fst y in
      if broadcastable n n' \<and> broadcastable w w'
      then (let N = broadcast_length n n'; W = broadcast_length w w'
            in Inr (elementwise_dot (stretch N (map (stretch W) (snd x)))
                                    (stretch N (map (stretch W) (snd y)))))
      else Inl ValueError)"

text \<open>A vector divided by a number: both components are.\<close>

fun vdiv :: "vec2 \<Rightarrow> fl \<Rightarrow> vec2" where
  "vdiv (x, y) n = (fdiv x n, fdiv y n)"

text \<open>Modelled from the spec: the absent \<open>normalized_vectors\<close>, "vector normalization
  (batch, L2)": each vector "scaled to unit L2 length", with "NaN propagation" for the
  zero vector ("normalization divides by zero").\<close>

definition normalized_vectors :: "vec2 list \<Rightarrow> vec2 list" where
  "normalized_vectors vs = map (\<lambda>v. vdiv v (norm2 v)) vs"

text \<open>Modelled from the spec: the angle between two unit vectors, the item of the absent
  \<open>angles_between_list_of_vectors\<close>: the "signed angle (radians) required to rotate
  one vector onto another in 2D". It is the angle in \<open>(-pi, pi]\<close> by which the first
  vector turns counter-clockwise onto the second: its cosine is the dot product of the
  two vectors and its sign is the sign of their cross product. (\<open>np.arccos\<close> is NaN
  outside \<open>[-1, 1]\<close>.)\<close>

fun signed_angle :: "vec2 \<Rightarrow> vec2 \<Rightarrow> fl" where
  "signed_angle (Fin ax, Fin ay) (Fin bx, Fin by) =
     (let d = ax * bx + ay * by;
          c = ax * by - ay * bx
      in if d < - 1 \<or> 1 < d then NaN
         else if 0 \<le> c then Fin (arccos d) else Fin (- arccos d))"
| "signed_angle _ _ = NaN"

text \<open>Modelled from the spec: the absent \<open>angles_between_list_of_vectors\<close>, the
  "signed angle between two batches of vectors": the angle between the normalized
  vectors of each pair of corresponding vectors of two batches of the same length.\<close>

definition angles_between_list_of_vectors :: "vec2 list \<Rightarrow> vec2 list \<Rightarrow> fl list" where
  "angles_between_list_of_vectors v0 v1 =
     map2 signed_angle (normalized_vectors v0) (normalized_vectors v1)"

section \<open>The random number generator\<close>

text \<open>
  numpy's global generator is a state that determines every later draw, so the state is
  modelled by the sequence of draws it will give: \<open>g i\<close> is the i-th next value of
  \<open>np.random.random\<close>. Drawing advances the state. \<open>np.random.seed\<close> is a
  function from seeds to states; the module does not depend on which, so it is a
  parameter \<open>seed_state\<close> of the functions that seed.
\<close>

type_synonym rng = "nat \<Rightarrow> real"

text \<open>\<open>np.random.random(size=n)\<close>.\<close>

definition random_sample :: "nat \<Rightarrow> rng \<Rightarrow> fl list \<times> rng" where
  "random_sample n g = (map (\<lambda>i. Fin (g i)) [0..<n], (\<lambda>i. g (i + n)))"

text \<open>\<open>np.random.random((n, 2))\<close>: the array is filled row by row.\<close>

definition random_pairs :: "nat \<Rightarrow> rng \<Rightarrow> vec2 list \<times> rng" where
  "random_pairs n g =
     (map (\<lambda>i. (Fin (g (2 * i)), Fin (g (2 * i + 1)))) [0..<n], (\<lambda>i. g (i + 2 * n)))"

text \<open>Modelled from the spec: the absent \<open>NumpyRNGContext\<close>, the "scoped random-context
  manager for reproducible draws": "if a seed is supplied, random state must be saved
  before the draw and restored after"; without a seed the enclosed draw uses the global
  state and advances it.\<close>

definition NumpyRNGContext :: "(int \<Rightarrow> rng) \<Rightarrow> int option \<Rightarrow> (rng \<Rightarrow> 'a \<times> rng) \<Rightarrow> rng \<Rightarrow> 'a \<times> rng" where
  "NumpyRNGContext seed_state seed body g =
     (case seed of
        None \<Rightarrow> body g
      | Some s \<Rightarrow> (let saved = g; (r, g') = body (seed_state s) in (r, saved)))"

section \<open>Random rotation\<close>

text \<open>
  A Python call binds its positional arguments to the parameters of the function;
  \<open>rotation_matrices_from_angles\<close> has the single parameter \<open>angles\<close>, so a call
  with any other number of positional arguments raises TypeError before the body runs.
  An \<open>(npts, 2)\<close> array passed as \<open>angles\<close> fails in the body, at the first slice
  assignment, with ValueError.
\<close>

datatype pyarg = AnglesArg angles_arg | VectorsArg "vec2 list"

definition call_rotation_matrices_from_angles :: "pyarg list \<Rightarrow> error + mat2 list" where
  "call_rotation_matrices_from_angles args =
     (case args of
        [AnglesArg a] \<Rightarrow> Inr (rotation_matrices_from_angles a)
      | [VectorsArg v] \<Rightarrow> Inl ValueError
      | _ \<Rightarrow> Inl TypeError)"

definition random_rotation :: "vec2 list \<Rightarrow> rng \<Rightarrow> (error + vec2 list) \<times> rng" where
  "random_rotation vectors g =
     (let (u, g1) = random_sample 1 g;
          ran_angle = map (\<lambda>x. fmul x (Fin pi)) u;
          (d, g2) = random_pairs 1 g1;
          ran_direction =
            map (\<lambda>(x, y). (fsub (fmul x (Fin 2)) (Fin 1), fsub (fmul y (Fin 2)) (Fin 1)))
              (normalized_vectors d)
      in (case call_rotation_matrices_from_angles
                 [AnglesArg (Array ran_angle), VectorsArg ran_direction] of
            Inl e \<Rightarrow> Inl e
          | Inr ran_rot \<Rightarrow> rotate_vector_collection (Batch ran_rot) vectors False,
          g2))"

section \<open>Rotation matrices from pairs of vectors\<close>

definition rotation_matrices_from_vectors :: "vec2 list \<Rightarrow> vec2 list \<Rightarrow> mat2 list" where
  "rotation_matrices_from_vectors v0 v1 =
     (let v0 = normalized_vectors v0;
          v1 = normalized_vectors v1;
          angles = angles_between_list_of_vectors v0 v1;
          mask = map (\<lambda>a. a = Fin 0) angles
      in rotation_matrices_from_angles (Array angles))"

text \<open>\<open>a * v\<close> for a scalar \<open>a\<close> and an array \<open>v\<close> of vectors.\<close>

definition scale :: "real \<Rightarrow> vec2 list \<Rightarrow> vec2 list" where
  "scale a vs = map (\<lambda>(x, y). (fmul (Fin a) x, fmul (Fin a) y)) vs"

section \<open>Random perpendicular directions\<close>

datatype vecs_arg = OneVector vec2 | Vectors "vec2 list"

text \<open>\<open>np.atleast_2d\<close>: a single vector becomes a batch of one.\<close>

fun atleast_2d :: "vecs_arg \<Rightarrow> vec2 list" where
  "atleast_2d (OneVector v) = [v]"
| "atleast_2d (Vectors vs) = vs"

text \<open>
  The arithmetic of an \<open>(npts, 2)\<close> array with an \<open>(npts, 1)\<close> column, row by
  row, and the difference of two \<open>(npts, 2)\<close> arrays. The operands have the same
  number of rows wherever the module uses them.
\<close>

definition div_rows :: "vec2 list \<Rightarrow> fl list \<Rightarrow> vec2 list" where
  "div_rows vs ns = map2 vdiv vs ns"

definition mul_rows :: "fl list \<Rightarrow> vec2 list \<Rightarrow> vec2 list" where
  "mul_rows ts vs = map2 (\<lambda>t (x, y). (fmul t x, fmul t y)) ts vs"

definition sub_rows :: "vec2 list \<Rightarrow> vec2 list \<Rightarrow> vec2 list" where
  "sub_rows us vs = map2 (\<lambda>(a, b) (x, y). (fsub a x, fsub b y)) us vs"

definition random_perpendicular_directions ::
    "(int \<Rightarrow> rng) \<Rightarrow> vecs_arg \<Rightarrow> int option \<Rightarrow> rng \<Rightarrow> vec2 list \<times> rng" where
  "random_perpendicular_directions seed_state v0 seed g =
     (let v = atleast_2d v0;
          npts = length v;
          (w, g') = NumpyRNGContext seed_state seed (random_pairs npts) g;
          vnorms = elementwise_norm v;
          wnorms = elementwise_norm w;
          e_v = div_rows v vnorms;
          e_w = div_rows w wnorms;
          v_dot_w = elementwise_dot (as_rows e_v) (as_rows e_w);
          e_v_perp = sub_rows e_w (mul_rows v_dot_w e_v);
          e_v_perp_norm = elementwise_norm e_v_perp
      in (div_rows e_v_perp e_v_perp_norm, g'))"

text \<open>The properties the documentation promises of a returned vector \<open>p\<close> for an
  input vector \<open>(a, b)\<close>: unit length, and a zero dot product.\<close>

fun unit_length :: "vec2 \<Rightarrow> bool" where
  "unit_length (Fin x, Fin y) = (x * x + y * y = 1)"
| "unit_length _ = False"

fun orthogonal_to :: "real \<times> real \<Rightarrow> vec2 \<Rightarrow> bool" where
  "orthogonal_to (a, b) (Fin x, Fin y) = (a * x + b * y = 0)"
| "orthogonal_to _ _ = False"

text \<open>The state the draw of \<open>random_perpendicular_directions\<close> reads.\<close>

definition draw_state :: "(int \<Rightarrow> rng) \<Rightarrow> int option \<Rightarrow> rng \<Rightarrow> rng" where
  "draw_state seed_state seed g = (case seed of None \<Rightarrow> g | Some s \<Rightarrow> seed_state s)"

definition cross2 :: "real \<times> real \<Rightarrow> real \<times> real \<Rightarrow> real" where
  "cross2 v w = fst v * snd w - snd v * fst w"

definition fin_vec :: "real \<times> real \<Rightarrow> vec2" where
  "fin_vec v = (Fin (fst v), Fin (snd v))"

section \<open>Rotation matrices from basis vectors\<close>

text \<open>
  \<open>np.array(xs).reshape(n, m)\<close> of a flat list: an array of shape \<open>(n, m)\<close>
  whose rows are consecutive runs of \<open>m\<close> elements, and a list whose length is not
  \<open>n * m\<close> raises ValueError.
\<close>

definition np_reshape :: "fl list \<Rightarrow> nat \<Rightarrow> nat \<Rightarrow> error + array2" where
  "np_reshape xs n m =
     (if length xs = n * m then Inr ((n, m), map (\<lambda>i. take m (drop (i * m) xs)) [0..<n])
      else Inl ValueError)"

text \<open>The Python list \<open>xs * n\<close>: \<open>n\<close> copies of \<open>xs\<close> one after the other.\<close>

definition list_times :: "fl list \<Rightarrow> nat \<Rightarrow> fl list" where
  "list_times xs n = concat (replicate n xs)"

definition rotation2d :: "vec2 list \<Rightarrow> vec2 list \<Rightarrow> error + mat2 list" where
  "rotation2d ux0 uy0 =
     (let N = length ux0 in
      case np_reshape (list_times [Fin 1, Fin 0] N) N 3 of
        Inl e \<Rightarrow> Inl e
      | Inr ex \<Rightarrow>
          (case np_reshape (list_times [Fin 0, Fin 1] N) N 3 of
             Inl e \<Rightarrow> Inl e
           | Inr ey \<Rightarrow>
               (let ux = normalized_vectors ux0;
                    uy = normalized_vectors uy0
                in case elementwise_dot_shaped ex (as_array2 ux) of
                     Inl e \<Rightarrow> Inl e
                   | Inr r_11 \<Rightarrow>
                 (case elementwise_dot_shaped ex (as_array2 uy) of
                     Inl e \<Rightarrow> Inl e
                   | Inr r_12 \<Rightarrow>
                 (case elementwise_dot_shaped ey (as_array2 ux) of
                     Inl e \<Rightarrow> Inl e
                   | Inr r_21 \<Rightarrow>
                 (case elementwise_dot_shaped ey (as_array2 uy) of
                     Inl e \<Rightarrow> Inl e
                   | Inr r_22 \<Rightarrow>
                       (let r = zeros N;
                            r = assign set00 r_11 r;
                            r = assign set01 r_12 r;
                            r = assign set10 r_21 r;
                            r = assign set11 r_22 r
                        in Inr r)))))))"

section \<open>Properties of the angle-to-matrix builder\<close>

lemma build_rows:
  "assign set10 (map fneg (map fsin xs))
     (assign set01 (map fsin xs)
       (assign set11 (map fcos xs)
         (assign set00 (map fcos xs) (zeros (length xs)))))
   = map (\<lambda>x. ((fcos x, fsin x), (fneg (fsin x), fcos x))) xs"
  by (induction xs) (simp_all add: assign_def zeros_def)

lemma rotation_matrices_from_angles_eq:
  "rotation_matrices_from_angles a =
     map (\<lambda>x. ((fcos x, fsin x), (fneg (fsin x), fcos x))) (atleast_1d a)"
  unfolding rotation_matrices_from_angles_def Let_def by (rule build_rows)

lemma rotation_matrices_from_angles_Fin:
  "rotation_matrices_from_angles (Array (map Fin ts)) = map rot ts"
  by (simp add: rotation_matrices_from_angles_eq rot_def)

text \<open>
  Claim C1. For every array of real angles \<open>rotation_matrices_from_angles\<close> returns
  one matrix per angle, the i-th being
  \<open>[[cos t, sin t], [-sin t, cos t]]\<close> for the i-th angle \<open>t\<close>; a scalar angle
  gives a batch of one matrix; the angle 0 gives the identity matrix, and the angles
  \<open>[0, pi/2]\<close> give \<open>[[[1,0],[0,1]], [[0,1],[-1,0]]]\<close>.
\<close>

theorem rotation_matrices_from_angles_spec:
  "rotation_matrices_from_angles (Array (map Fin ts)) = map rot ts
   \<and> length (rotation_matrices_from_angles (Array (map Fin ts))) = length ts
   \<and> rotation_matrices_from_angles (Scalar (Fin t)) = [rot t]
   \<and> rotation_matrices_from_angles (Array [Fin 0]) = [identity2]
   \<and> rotation_matrices_from_angles (Array [Fin 0, Fin (pi / 2)])
       = [((Fin 1, Fin 0), (Fin 0, Fin 1)), ((Fin 0, Fin 1), (Fin (- 1), Fin 0))]"
  by (simp add: rotation_matrices_from_angles_Fin rotation_matrices_from_angles_eq
      rot_def identity2_def)

theorem rotation_matrices_from_angles_spec_witness:
  "rotation_matrices_from_angles (Array [Fin 0, Fin (pi / 2)])
     = [((Fin 1, Fin 0), (Fin 0, Fin 1)), ((Fin 0, Fin 1), (Fin (- 1), Fin 0))]"
  using rotation_matrices_from_angles_spec [of "[0, pi / 2]" 0]
  by (simp add: rot_def)

lemma rot_orthogonal: "mat_mul (rot t) (mat_transpose (rot t)) = identity2"
  by (simp add: rot_def identity2_def flip: power2_eq_square)

lemma rot_det: "det (rot t) = Fin 1"
  by (simp add: rot_def flip: power2_eq_square)

text \<open>
  Claim C8. Every matrix \<open>M\<close> that \<open>rotation_matrices_from_angles\<close> produces
  for real angles satisfies \<open>M M\<^sup>T = identity\<close> and \<open>det M = 1\<close>, exactly in
  real arithmetic.
\<close>

theorem rotation_matrices_orthogonal:
  "\<forall>M \<in> set (rotation_matrices_from_angles (Array (map Fin ts))).
     mat_mul M (mat_transpose M) = identity2 \<and> det M = Fin 1"
  by (simp add: rotation_matrices_from_angles_Fin rot_orthogonal rot_det)

theorem rotation_matrices_orthogonal_witness:
  "mat_mul ((Fin 0, Fin 1), (Fin (- 1), Fin 0))
     (mat_transpose ((Fin 0, Fin 1), (Fin (- 1), Fin 0))) = identity2
   \<and> det ((Fin 0, Fin 1), (Fin (- 1), Fin 0)) = Fin 1"
  using rotation_matrices_orthogonal [of "[pi / 2]"]
  by (simp add: rotation_matrices_from_angles_Fin rot_def identity2_def)

section \<open>Properties of the matrix application\<close>

lemma rotate_single_eq:
  "transpose_2N (dot_22_2N M (transpose_N2 vs)) = map (mat_vec M) vs"
proof -
  obtain a b c d where M: "M = ((a, b), (c, d))"
    by (metis surj_pair)
  show ?thesis
    unfolding M transpose_N2_def by (induction vs) auto
qed

lemma rotate_replicate_eq:
  "map2 mat_vec (replicate (length vs) M) vs = map (mat_vec M) vs"
  by (induction vs) simp_all

text \<open>The contraction broadcasts a batch of one matrix over all the vectors, and one
  vector over all the matrices.\<close>

lemma rotate_one_matrix_broadcast:
  "rotate_vector_collection (Batch [M]) vs optimize = Inr (map (mat_vec M) vs)"
proof (cases "length vs = 1")
  case True
  then obtain v where "vs = [v]"
    by (cases vs) simp_all
  then show ?thesis
    by (simp add: rotate_vector_collection_def einsum_ijk_ik_def)
next
  case False
  then show ?thesis
    by (simp add: rotate_vector_collection_def einsum_ijk_ik_def)
qed

lemma rotate_one_vector_broadcast:
  "rotate_vector_collection (Batch Ms) [v] optimize = Inr (map (\<lambda>M. mat_vec M v) Ms)"
proof (cases "length Ms = 1")
  case True
  then obtain M where "Ms = [M]"
    by (cases Ms) simp_all
  then show ?thesis
    by (simp add: rotate_vector_collection_def einsum_ijk_ik_def)
next
  case False
  then show ?thesis
    by (simp add: rotate_vector_collection_def einsum_ijk_ik_def)
qed

lemma np_shape_single: "np_shape r = [2, 2] \<longleftrightarrow> (\<exists>M. r = Single M)"
  by (cases r) (simp_all del: split_paired_Ex)

text \<open>
  Claim C7. For every matrix \<open>M\<close> and every batch of vectors, the call with the
  single matrix \<open>M\<close> (shape \<open>(2, 2)\<close>, the shared mode) returns what the call with
  the batch of as many copies of \<open>M\<close> as there are vectors returns (a batch never has
  the shape \<open>(2, 2)\<close>, so that call is in batched mode), whatever the \<open>optimize\<close>
  flags: each vector multiplied by \<open>M\<close>.
\<close>

theorem rotate_shared_eq_batched:
  "rotate_vector_collection (Single M) vs optimize
     = rotate_vector_collection (Batch (replicate (length vs) M)) vs optimize'
   \<and> rotate_vector_collection (Single M) vs optimize = Inr (map (mat_vec M) vs)
   \<and> np_shape (Single M) = [2, 2]
   \<and> np_shape (Batch (replicate (length vs) M)) \<noteq> [2, 2]"
  by (simp add: rotate_vector_collection_def einsum_ijk_ik_def rotate_single_eq
      rotate_replicate_eq)

theorem rotate_shared_eq_batched_witness:
  "rotate_vector_collection (Single ((Fin 0, Fin 1), (Fin (- 1), Fin 0)))
     [(Fin 1, Fin 0), (Fin 0, Fin 1), (Fin 2, Fin 3)] False
   = rotate_vector_collection
       (Batch [((Fin 0, Fin 1), (Fin (- 1), Fin 0)), ((Fin 0, Fin 1), (Fin (- 1), Fin 0)),
               ((Fin 0, Fin 1), (Fin (- 1), Fin 0))])
       [(Fin 1, Fin 0), (Fin 0, Fin 1), (Fin 2, Fin 3)] True
   \<and> rotate_vector_collection (Single ((Fin 0, Fin 1), (Fin (- 1), Fin 0)))
     [(Fin 1, Fin 0), (Fin 0, Fin 1), (Fin 2, Fin 3)] False
     = Inr [(Fin 0, Fin (- 1)), (Fin 1, Fin 0), (Fin 3, Fin (- 2))]"
  using rotate_shared_eq_batched
    [of "((Fin 0, Fin 1), (Fin (- 1), Fin 0))" "[(Fin 1, Fin 0), (Fin 0, Fin 1), (Fin 2, Fin 3)]"
        False True]
  by (simp add: numeral_3_eq_3 rotate_vector_collection_def einsum_ijk_ik_def)

text \<open>
  Claim C9, as stated: in batched mode, a batch of matrices whose length differs from
  the number of vectors makes the call fail with a shape error. It does not when one of
  the two lengths is one: a batch of one matrix and two vectors is broadcast by the
  contraction, and the call returns both vectors multiplied by that matrix.
\<close>

theorem rotate_length_mismatch_broadcast:
  "rotate_vector_collection (Batch [identity2]) [(Fin 1, Fin 0), (Fin 0, Fin 1)] False
     = Inr [(Fin 1, Fin 0), (Fin 0, Fin 1)]"
  by (simp add: rotate_vector_collection_def einsum_ijk_ik_def identity2_def)

text \<open>
  Claim C9, amended. In batched mode, when the number of matrices differs from the
  number of vectors and neither number is one, the call fails with the ValueError of the
  contraction: nothing validates the lengths before, and the handler around the
  contraction, which catches TypeError only, lets it through to the caller.
\<close>

theorem rotate_length_mismatch:
  "length Ms \<noteq> length vs \<Longrightarrow> length Ms \<noteq> 1 \<Longrightarrow> length vs \<noteq> 1 \<Longrightarrow>
   rotate_vector_collection (Batch Ms) vs optimize = Inl ValueError"
  by (simp add: rotate_vector_collection_def einsum_ijk_ik_def)

theorem rotate_length_mismatch_witness:
  "rotate_vector_collection (Batch [identity2, identity2, identity2])
     [(Fin 1, Fin 0), (Fin 0, Fin 1)] False = Inl ValueError"
  using rotate_length_mismatch
    [of "[identity2, identity2, identity2]" "[(Fin 1, Fin 0), (Fin 0, Fin 1)]" False]
  by simp

section \<open>Properties of the random rotation\<close>

text \<open>
  Claim C3 says that \<open>random_rotation\<close> builds one rotation matrix and returns the
  rotated batch. The function calls \<open>rotation_matrices_from_angles\<close> with two
  positional arguments, the angle and the unused direction, while that function takes
  one: for every batch of vectors and every state of the generator the call raises
  TypeError, and no matrix is built.
\<close>

theorem random_rotation_raises:
  "fst (random_rotation vectors g) = Inl TypeError"
  by (simp add: random_rotation_def call_rotation_matrices_from_angles_def Let_def
      split: prod.splits)

section \<open>Properties of the basis-vector construction\<close>

text \<open>On operands of one shape, whose rows have the width the shape says, the helper
  on shaped arrays is the helper on rows.\<close>

lemma elementwise_dot_shaped_same_shape:
  assumes "length xs = n" and "length ys = n"
    and "\<forall>r \<in> set xs. length r = w" and "\<forall>r \<in> set ys. length r = w"
  shows "elementwise_dot_shaped ((n, w), xs) ((n, w), ys) = Inr (elementwise_dot xs ys)"
proof -
  have "map (stretch w) xs = xs" and "map (stretch w) ys = ys"
    using assms(3,4) by (simp_all add: stretch_def map_idI)
  then show ?thesis
    using assms(1,2)
    by (simp add: elementwise_dot_shaped_def broadcastable_def broadcast_length_def stretch_def)
qed

lemma widths_3_2_not_broadcastable: "\<not> broadcastable 3 2"
  by (simp add: broadcastable_def)

lemma reshape_valid_iff:
  "(\<exists>ex. np_reshape (list_times [x, y] N) N 3 = Inr ex) \<longleftrightarrow> N = 0"
  by (auto simp: np_reshape_def list_times_def length_concat sum_list_replicate)

text \<open>
  Claim C4, as stated: where the reshape of the reference basis is invalid
  \<open>rotation2d\<close> fails with a shape error, and otherwise it produces silently wrong
  dot products. The reshape is valid for the batch of no vectors, where it gives an
  array of shape \<open>(0, 3)\<close>; the call then fails as well, with the ValueError of the
  first dot product, whose operands have the shapes \<open>(0, 3)\<close> and \<open>(0, 2)\<close>.
  Nothing is returned, silently or otherwise.
\<close>

theorem rotation2d_empty:
  "np_reshape (list_times [Fin 1, Fin 0] 0) 0 3 = Inr ((0, 3), [])
   \<and> rotation2d [] [] = Inl ValueError"
  by (simp add: rotation2d_def np_reshape_def list_times_def normalized_vectors_def
      elementwise_dot_shaped_def as_array2_def as_rows_def broadcastable_def)

text \<open>
  Claim C4, amended. \<open>rotation2d\<close> builds each reference basis vector from a flat
  list of \<open>2 N\<close> numbers that it reshapes to \<open>(N, 3)\<close>, against the 2-component
  vectors of the rest of the module. The call fails with a shape error (ValueError) for
  every batch: for \<open>N \<ge> 1\<close> vectors the reshape is invalid and raises it; for
  \<open>N = 0\<close>, the only size for which the reshape is valid, the first dot product
  raises it. No input gives silently wrong dot products.
\<close>

theorem rotation2d_fails:
  "rotation2d ux uy = Inl ValueError
   \<and> ((\<exists>ex. np_reshape (list_times [Fin 1, Fin 0] (length ux)) (length ux) 3 = Inr ex)
        \<longleftrightarrow> ux = [])"
proof
  show "rotation2d ux uy = Inl ValueError"
  proof (cases "ux = []")
    case True
    then show ?thesis
      by (simp add: rotation2d_def np_reshape_def list_times_def normalized_vectors_def
          elementwise_dot_shaped_def as_array2_def as_rows_def broadcastable_def)
  next
    case False
    then show ?thesis
      by (simp add: rotation2d_def np_reshape_def list_times_def length_concat
          sum_list_replicate)
  qed
next
  show "(\<exists>ex. np_reshape (list_times [Fin 1, Fin 0] (length ux)) (length ux) 3 = Inr ex)
          \<longleftrightarrow> ux = []"
    by (simp add: reshape_valid_iff del: split_paired_Ex)
qed

theorem rotation2d_fails_witness:
  "rotation2d [(Fin 1, Fin 0)] [(Fin 0, Fin 1)] = Inl ValueError
   \<and> rotation2d [] [(Fin 0, Fin 1)] = Inl ValueError"
  using rotation2d_fails [of "[(Fin 1, Fin 0)]" "[(Fin 0, Fin 1)]"]
    rotation2d_fails [of "[]" "[(Fin 0, Fin 1)]"]
  by simp

section \<open>Properties of the vector-pair construction\<close>

lemma sqrt_scale:
  fixes a x y :: real
  assumes "0 < a"
  shows "sqrt (a * x * (a * x) + a * y * (a * y)) = a * sqrt (x * x + y * y)"
proof -
  have "a * x * (a * x) + a * y * (a * y) = a\<^sup>2 * (x * x + y * y)"
    by (simp add: power2_eq_square algebra_simps)
  then show ?thesis
    using assms by (simp add: real_sqrt_mult)
qed

lemma sum_squares_nonneg: "\<not> (x * x + y * y < (0::real))"
  by (simp add: not_less)

lemma normalize_scale_item:
  assumes "0 < a"
  shows "vdiv (fmul (Fin a) x, fmul (Fin a) y) (norm2 (fmul (Fin a) x, fmul (Fin a) y))
       = vdiv (x, y) (norm2 (x, y))"
proof (cases x)
  case (Fin p)
  show ?thesis
  proof (cases y)
    case (Fin q)
    show ?thesis
      using assms unfolding \<open>x = Fin p\<close> \<open>y = Fin q\<close>
      by (simp add: sqrt_scale sum_squares_nonneg sum_squares_eq_zero_iff)
  next
    case NaN
    then show ?thesis using \<open>x = Fin p\<close> by simp
  qed
next
  case NaN
  then show ?thesis by (cases y) simp_all
qed

lemma normalized_vectors_scale:
  "0 < a \<Longrightarrow> normalized_vectors (scale a vs) = normalized_vectors vs"
  unfolding normalized_vectors_def scale_def
  by (induction vs) (auto simp: normalize_scale_item simp del: vdiv.simps norm2.simps)

text \<open>
  Claim C10. \<open>rotation_matrices_from_vectors\<close> is invariant under positive
  rescaling of its inputs: for all batches \<open>v0\<close> and \<open>v1\<close> and all positive
  scalars \<open>a\<close> and \<open>b\<close>, the matrices for \<open>a * v0\<close> and \<open>b * v1\<close> are the
  matrices for \<open>v0\<close> and \<open>v1\<close>, because both inputs are normalized first. (The
  vectors need not even be non-zero: a zero vector is normalized to NaN on both sides.)
\<close>

theorem rotation_matrices_from_vectors_scale_invariant:
  "0 < a \<Longrightarrow> 0 < b \<Longrightarrow>
   rotation_matrices_from_vectors (scale a v0) (scale b v1) = rotation_matrices_from_vectors v0 v1"
  by (simp add: rotation_matrices_from_vectors_def normalized_vectors_scale)

theorem rotation_matrices_from_vectors_scale_invariant_witness:
  "rotation_matrices_from_vectors [(Fin 2, Fin 0)] [(Fin 0, Fin 3)]
     = rotation_matrices_from_vectors [(Fin 1, Fin 0)] [(Fin 0, Fin 1)]"
  using rotation_matrices_from_vectors_scale_invariant
    [of 2 3 "[(Fin 1, Fin 0)]" "[(Fin 0, Fin 1)]"]
  by (simp add: scale_def)

lemma sqrt_16_25: "sqrt (16 / 25) = 4 / (5::real)"
  by (rule real_sqrt_unique) (simp_all add: power2_eq_square)

text \<open>The matrix built for an angle \<open>t\<close> takes the first basis vector to
  \<open>(cos t, - sin t)\<close>: it turns clockwise for a positive angle.\<close>

lemma builder_turns_clockwise:
  "rotate_vector_collection (Batch (rotation_matrices_from_angles (Array [Fin t])))
     [(Fin 1, Fin 0)] optimize
   = Inr [(Fin (cos t), Fin (- sin t))]"
  by (simp add: rotate_vector_collection_def einsum_ijk_ik_def rotation_matrices_from_angles_eq)

text \<open>
  Claim C2 says that rotating \<open>v0\<close> by the matrices of
  \<open>rotation_matrices_from_vectors v0 v1\<close> gives \<open>v1\<close>, for unit vectors. The
  matrix built for an angle turns a vector clockwise by that angle, while the angle
  handed to the builder is the angle from \<open>v0\<close> to \<open>v1\<close>: for the unit vectors
  \<open>v0 = (1, 0)\<close> and \<open>v1 = (3/5, 4/5)\<close> the rotated vector is \<open>(3/5, -4/5)\<close>,
  the mirror image of \<open>v1\<close>, which is not on the line of \<open>v1\<close>.
\<close>

theorem round_trip_fails:
  "rotate_vector_collection
     (Batch (rotation_matrices_from_vectors [(Fin 1, Fin 0)] [(Fin (3 / 5), Fin (4 / 5))]))
     [(Fin 1, Fin 0)] False
   = Inr [(Fin (3 / 5), Fin (- (4 / 5)))]
   \<and> rotate_vector_collection
     (Batch (rotation_matrices_from_vectors [(Fin 1, Fin 0)] [(Fin (3 / 5), Fin (4 / 5))]))
     [(Fin 1, Fin 0)] False
   \<noteq> Inr [(Fin (3 / 5), Fin (4 / 5))]"
  by (simp add: rotate_vector_collection_def einsum_ijk_ik_def rotation_matrices_from_vectors_def
      normalized_vectors_def angles_between_list_of_vectors_def rotation_matrices_from_angles_eq
      Let_def sin_arccos power2_eq_square sqrt_16_25)

section \<open>Properties of the random perpendicular directions\<close>

lemma unit_reject:
  fixes u1 u2 w1 w2 :: real
  assumes "u1 * u1 + u2 * u2 = 1" and "w1 * w1 + w2 * w2 = 1"
  shows "(w1 - (u1 * w1 + u2 * w2) * u1) * (w1 - (u1 * w1 + u2 * w2) * u1)
         + (w2 - (u1 * w1 + u2 * w2) * u2) * (w2 - (u1 * w1 + u2 * w2) * u2)
         = (u1 * w2 - u2 * w1) * (u1 * w2 - u2 * w1)"
    and "u1 * (w1 - (u1 * w1 + u2 * w2) * u1) + u2 * (w2 - (u1 * w1 + u2 * w2) * u2) = 0"
  using assms by algebra+

lemma unit_of_normalised:
  fixes a b :: real
  assumes "a \<noteq> 0 \<or> b \<noteq> 0"
  shows "a / sqrt (a * a + b * b) * (a / sqrt (a * a + b * b))
         + b / sqrt (a * a + b * b) * (b / sqrt (a * a + b * b)) = 1"
proof -
  have pos: "0 < a * a + b * b"
    using assms by (metis not_sum_squares_lt_zero sum_squares_eq_zero_iff less_eq_real_def not_less)
  define r where "r = sqrt (a * a + b * b)"
  have rr: "r * r = a * a + b * b"
    using pos by (simp add: r_def)
  have "a / r * (a / r) + b / r * (b / r) = (a * a + b * b) / (r * r)"
    by (simp add: add_divide_distrib)
  also have "\<dots> = 1"
    using assms by (auto simp: rr)
  finally show ?thesis
    by (simp add: r_def)
qed

text \<open>One row of the result, for a finite input row \<open>(a, b)\<close> and a drawn row
  \<open>(c, e)\<close> that is not parallel to it.\<close>

lemma perp_item:
  fixes a b c e :: real
  assumes "a * e - b * c \<noteq> 0"
  defines "ev \<equiv> vdiv (Fin a, Fin b) (norm2 (Fin a, Fin b))"
  defines "ew \<equiv> vdiv (Fin c, Fin e) (norm2 (Fin c, Fin e))"
  defines "t \<equiv> row_dot [fst ev, snd ev] [fst ew, snd ew]"
  defines "q \<equiv> (fsub (fst ew) (fmul t (fst ev)), fsub (snd ew) (fmul t (snd ev)))"
  shows "\<exists>px py. vdiv q (norm2 q) = (Fin px, Fin py)
           \<and> px * px + py * py = 1 \<and> a * px + b * py = 0"
proof -
  define nv where "nv = sqrt (a * a + b * b)"
  define nw where "nw = sqrt (c * c + e * e)"
  have v0: "a \<noteq> 0 \<or> b \<noteq> 0" and w0: "c \<noteq> 0 \<or> e \<noteq> 0"
    using assms(1) by auto
  have nv0: "nv \<noteq> 0" and nw0: "nw \<noteq> 0"
    using v0 w0 by (auto simp: nv_def nw_def sum_squares_eq_zero_iff)
  define u1 u2 w1 w2 where "u1 = a / nv" and "u2 = b / nv" and "w1 = c / nw" and "w2 = e / nw"
  have uu: "u1 * u1 + u2 * u2 = 1" and ww: "w1 * w1 + w2 * w2 = 1"
    using unit_of_normalised [OF v0] unit_of_normalised [OF w0]
    by (simp_all add: u1_def u2_def w1_def w2_def nv_def nw_def)
  have ev: "ev = (Fin u1, Fin u2)" and ew: "ew = (Fin w1, Fin w2)"
    using nv0 nw0
    by (simp_all add: ev_def ew_def u1_def u2_def w1_def w2_def nv_def nw_def sum_squares_nonneg)
  define s where "s = u1 * w1 + u2 * w2"
  define qx qy where "qx = w1 - s * u1" and "qy = w2 - s * u2"
  have q: "q = (Fin qx, Fin qy)"
    by (simp add: q_def t_def ev ew qx_def qy_def s_def)
  have cr: "u1 * w2 - u2 * w1 = (a * e - b * c) / (nv * nw)"
    by (simp add: u1_def u2_def w1_def w2_def diff_divide_distrib)
  have cr0: "u1 * w2 - u2 * w1 \<noteq> 0"
    using assms(1) nv0 nw0 by (simp add: cr)
  have qq: "qx * qx + qy * qy = (u1 * w2 - u2 * w1) * (u1 * w2 - u2 * w1)"
    using unit_reject(1) [OF uu ww] by (simp add: qx_def qy_def s_def)
  have orth: "u1 * qx + u2 * qy = 0"
    using unit_reject(2) [OF uu ww] by (simp add: qx_def qy_def s_def)
  have q0: "qx \<noteq> 0 \<or> qy \<noteq> 0"
    using qq cr0 by auto
  define nq where "nq = sqrt (qx * qx + qy * qy)"
  have nq0: "nq \<noteq> 0"
    using q0 by (auto simp: nq_def sum_squares_eq_zero_iff)
  have res: "vdiv q (norm2 q) = (Fin (qx / nq), Fin (qy / nq))"
    using nq0 by (simp add: q nq_def sum_squares_nonneg)
  have unit: "qx / nq * (qx / nq) + qy / nq * (qy / nq) = 1"
    using unit_of_normalised [OF q0] by (simp add: nq_def)
  have "a * (qx / nq) + b * (qy / nq) = nv * (u1 * qx + u2 * qy) / nq"
    using nv0 by (simp add: u1_def u2_def add_divide_distrib distrib_left)
  then have "a * (qx / nq) + b * (qy / nq) = 0"
    by (simp add: orth)
  with res unit show ?thesis
    by blast
qed

text \<open>The i-th row of the result, from the i-th input row and the i-th drawn row.\<close>

lemma perp_nth:
  assumes "i < length vs"
  shows "fst (random_perpendicular_directions seed_state (Vectors (map fin_vec vs)) seed g) ! i
     = (let d = draw_state seed_state seed g;
            ev = vdiv (fin_vec (vs ! i)) (norm2 (fin_vec (vs ! i)));
            ew = vdiv (Fin (d (2 * i)), Fin (d (2 * i + 1)))
                   (norm2 (Fin (d (2 * i)), Fin (d (2 * i + 1))));
            t = row_dot [fst ev, snd ev] [fst ew, snd ew];
            q = (fsub (fst ew) (fmul t (fst ev)), fsub (snd ew) (fmul t (snd ev)))
        in vdiv q (norm2 q))"
  using assms
  by (cases seed)
     (simp_all add: random_perpendicular_directions_def NumpyRNGContext_def random_pairs_def
        draw_state_def elementwise_norm_def elementwise_dot_def as_rows_def div_rows_def
        mul_rows_def sub_rows_def Let_def split_def
        del: vdiv.simps norm2.simps)

lemma perp_length:
  "length (fst (random_perpendicular_directions seed_state v seed g)) = length (atleast_2d v)"
  by (cases seed)
     (simp_all add: random_perpendicular_directions_def NumpyRNGContext_def random_pairs_def
        elementwise_norm_def elementwise_dot_def as_rows_def div_rows_def
        mul_rows_def sub_rows_def Let_def split_def)

text \<open>
  Claim C5, as stated: for every batch of non-zero vectors and any seed, each returned
  vector has unit length and is orthogonal to its input vector. It fails when a drawn
  vector is parallel to its input vector: for the input \<open>(3/5, 4/5)\<close> and a seed
  whose first two draws are \<open>3/5\<close> and \<open>4/5\<close>, the rejection is the zero vector,
  its normalisation divides zero by zero, and the returned row is NaN.
\<close>

theorem perpendicular_degenerate_draw:
  "fst (random_perpendicular_directions (\<lambda>s i. if i = 0 then 3 / 5 else 4 / 5)
         (Vectors [(Fin (3 / 5), Fin (4 / 5))]) (Some 42) (\<lambda>i. 0))
   = [(NaN, NaN)]"
  by (simp add: random_perpendicular_directions_def NumpyRNGContext_def random_pairs_def
        elementwise_norm_def elementwise_dot_def as_rows_def div_rows_def
        mul_rows_def sub_rows_def Let_def)

text \<open>
  Claim C5, amended. For every batch of input vectors (a single vector is promoted to
  a batch of one) and any seed such that no drawn vector is parallel to its input
  vector (their cross product is not zero, which makes both of them non-zero), the
  result has one row per input vector, and each row has unit length and is orthogonal
  to its input vector.
\<close>

theorem random_perpendicular_directions_perp:
  assumes "\<forall>i < length vs.
             cross2 (vs ! i) (draw_state seed_state seed g (2 * i),
                              draw_state seed_state seed g (2 * i + 1)) \<noteq> 0"
  shows "length (fst (random_perpendicular_directions seed_state (Vectors (map fin_vec vs)) seed g))
           = length vs
         \<and> (\<forall>i < length vs.
               unit_length
                 (fst (random_perpendicular_directions seed_state (Vectors (map fin_vec vs)) seed g) ! i)
             \<and> orthogonal_to (vs ! i)
                 (fst (random_perpendicular_directions seed_state (Vectors (map fin_vec vs)) seed g) ! i))
         \<and> random_perpendicular_directions seed_state (OneVector v) seed g
           = random_perpendicular_directions seed_state (Vectors [v]) seed g"
proof (intro conjI allI impI)
  show "length (fst (random_perpendicular_directions seed_state (Vectors (map fin_vec vs)) seed g))
          = length vs"
    by (simp add: perp_length)
next
  show "random_perpendicular_directions seed_state (OneVector v) seed g
          = random_perpendicular_directions seed_state (Vectors [v]) seed g"
    by (simp add: random_perpendicular_directions_def)
next
  fix i assume i: "i < length vs"
  obtain a b where ab: "vs ! i = (a, b)"
    by (cases "vs ! i")
  define d where "d = draw_state seed_state seed g"
  have ne: "a * d (2 * i + 1) - b * d (2 * i) \<noteq> 0"
    using assms i by (auto simp: cross2_def ab d_def)
  obtain px py where p:
      "fst (random_perpendicular_directions seed_state (Vectors (map fin_vec vs)) seed g) ! i
         = (Fin px, Fin py)"
      "px * px + py * py = 1" "a * px + b * py = 0"
    using perp_item [OF ne] unfolding perp_nth [OF i] Let_def ab fin_vec_def d_def fst_conv snd_conv
    by blast
  show "unit_length
         (fst (random_perpendicular_directions seed_state (Vectors (map fin_vec vs)) seed g) ! i)"
    by (simp add: p)
  show "orthogonal_to (vs ! i)
         (fst (random_perpendicular_directions seed_state (Vectors (map fin_vec vs)) seed g) ! i)"
    by (simp add: p ab)
qed

theorem random_perpendicular_directions_perp_witness:
  "unit_length
     (fst (random_perpendicular_directions (\<lambda>s i. if i = 0 then 3 / 5 else 4 / 5)
            (Vectors [(Fin 1, Fin 0)]) (Some 42) (\<lambda>i. 0)) ! 0)
   \<and> orthogonal_to (1, 0)
     (fst (random_perpendicular_directions (\<lambda>s i. if i = 0 then 3 / 5 else 4 / 5)
            (Vectors [(Fin 1, Fin 0)]) (Some 42) (\<lambda>i. 0)) ! 0)"
  using random_perpendicular_directions_perp
    [of "[(1, 0)]" "\<lambda>s i. if i = 0 then 3 / 5 else 4 / 5" "Some 42" "\<lambda>i. 0"]
  by (simp add: cross2_def draw_state_def fin_vec_def)

text \<open>
  Claim C6. A call of \<open>random_perpendicular_directions\<close> with a seed leaves the
  global state of the generator as it found it, and its result does not depend on that
  state: two calls with the same input and the same seed return the same result, and
  an unseeded call made after a seeded one returns what it would have returned without
  it.
\<close>

theorem seeded_call_deterministic:
  "snd (random_perpendicular_directions seed_state v (Some s) g) = g
   \<and> fst (random_perpendicular_directions seed_state v (Some s) g)
       = fst (random_perpendicular_directions seed_state v (Some s) h)
   \<and> random_perpendicular_directions seed_state v' None
         (snd (random_perpendicular_directions seed_state v (Some s) g))
       = random_perpendicular_directions seed_state v' None g"
  by (simp add: random_perpendicular_directions_def NumpyRNGContext_def Let_def
      split: prod.splits)

theorem seeded_call_deterministic_witness:
  "snd (random_perpendicular_directions (\<lambda>s i. if i = 0 then 3 / 5 else 4 / 5)
          (Vectors [(Fin 1, Fin 0)]) (Some 42) (\<lambda>i. 1 / 4)) = (\<lambda>i. 1 / 4)
   \<and> fst (random_perpendicular_directions (\<lambda>s i. if i = 0 then 3 / 5 else 4 / 5)
          (Vectors [(Fin 1, Fin 0)]) (Some 42) (\<lambda>i. 1 / 4))
     = fst (random_perpendicular_directions (\<lambda>s i. if i = 0 then 3 / 5 else 4 / 5)
          (Vectors [(Fin 1, Fin 0)]) (Some 42) (\<lambda>i. 3 / 4))"
  using seeded_call_deterministic
    [of "\<lambda>s i. if i = 0 then 3 / 5 else 4 / 5" "Vectors [(Fin 1, Fin 0)]" 42 "\<lambda>i. 1 / 4"
        "\<lambda>i. 3 / 4"]
  by simp

end
